theory Spec2Isabelle
  imports Complex_Main
begin

section \<open>Numbers\<close>

text \<open>
  The optimiser of \<^verbatim>\<open>berny.py\<close> computes with numpy's 64-bit floats. They are modelled by
  \<open>npfloat\<close>: a finite value is an exact real, and the three special values follow the
  IEEE rules numpy applies: a division by zero does not raise, it yields an infinity or
  NaN; NaN is absorbing; every comparison with NaN is false. What the model leaves out
  is the finite precision: there is no rounding, no overflow to an infinity, no
  underflow to zero and no negative zero. A statement that holds of the floats only up
  to rounding error is therefore not a statement of this model.
\<close>

datatype npfloat = Fin real | PInf | NInf | NaN

fun is_finite :: "npfloat \<Rightarrow> bool" where
  "is_finite (Fin _) = True"
| "is_finite _ = False"

fun fneg :: "npfloat \<Rightarrow> npfloat" where
  "fneg (Fin a) = Fin (- a)"
| "fneg PInf = NInf"
| "fneg NInf = PInf"
| "fneg NaN = NaN"

fun fadd :: "npfloat \<Rightarrow> npfloat \<Rightarrow> npfloat" where
  "fadd (Fin a) (Fin b) = Fin (a + b)"
| "fadd NaN _ = NaN"
| "fadd _ NaN = NaN"
| "fadd PInf NInf = NaN"
| "fadd NInf PInf = NaN"
| "fadd PInf _ = PInf"
| "fadd _ PInf = PInf"
| "fadd NInf _ = NInf"
| "fadd _ NInf = NInf"

fun fsign_inf :: "bool \<Rightarrow> npfloat" where
  "fsign_inf True = PInf"
| "fsign_inf False = NInf"

fun fmul :: "npfloat \<Rightarrow> npfloat \<Rightarrow> npfloat" where
  "fmul (Fin a) (Fin b) = Fin (a * b)"
| "fmul NaN _ = NaN"
| "fmul _ NaN = NaN"
| "fmul (Fin a) PInf = (if a = 0 then NaN else fsign_inf (0 < a))"
| "fmul (Fin a) NInf = (if a = 0 then NaN else fsign_inf (a < 0))"
| "fmul PInf (Fin b) = (if b = 0 then NaN else fsign_inf (0 < b))"
| "fmul NInf (Fin b) = (if b = 0 then NaN else fsign_inf (b < 0))"
| "fmul PInf PInf = PInf"
| "fmul NInf NInf = PInf"
| "fmul PInf NInf = NInf"
| "fmul NInf PInf = NInf"

fun fdiv :: "npfloat \<Rightarrow> npfloat \<Rightarrow> npfloat" where
  "fdiv (Fin a) (Fin b) =
     (if b = 0 then (if a = 0 then NaN else fsign_inf (0 < a)) else Fin (a / b))"
| "fdiv NaN _ = NaN"
| "fdiv _ NaN = NaN"
| "fdiv (Fin a) PInf = Fin 0"
| "fdiv (Fin a) NInf = Fin 0"
| "fdiv PInf (Fin b) = fsign_inf (0 \<le> b)"
| "fdiv NInf (Fin b) = fsign_inf (b < 0)"
| "fdiv PInf _ = NaN"
| "fdiv NInf _ = NaN"

fun fabs :: "npfloat \<Rightarrow> npfloat" where
  "fabs (Fin a) = Fin \<bar>a\<bar>"
| "fabs PInf = PInf"
| "fabs NInf = PInf"
| "fabs NaN = NaN"

fun flt :: "npfloat \<Rightarrow> npfloat \<Rightarrow> bool" where
  "flt (Fin a) (Fin b) = (a < b)"
| "flt NaN _ = False"
| "flt _ NaN = False"
| "flt _ NInf = False"
| "flt PInf _ = False"
| "flt NInf _ = True"
| "flt _ PInf = True"

fun fle :: "npfloat \<Rightarrow> npfloat \<Rightarrow> bool" where
  "fle (Fin a) (Fin b) = (a \<le> b)"
| "fle NaN _ = False"
| "fle _ NaN = False"
| "fle NInf _ = True"
| "fle _ PInf = True"
| "fle _ NInf = False"
| "fle PInf _ = False"

fun fsqrt :: "npfloat \<Rightarrow> npfloat" where
  "fsqrt (Fin a) = (if a < 0 then NaN else Fin (sqrt a))"
| "fsqrt PInf = PInf"
| "fsqrt NInf = NaN"
| "fsqrt NaN = NaN"

instantiation npfloat :: "{zero, one, plus, minus, uminus, times, inverse, abs, ord}"
begin

definition zero_npfloat_def: "0 = Fin 0"
definition one_npfloat_def: "1 = Fin 1"
definition plus_npfloat_def: "x + y = fadd x y"
definition uminus_npfloat_def: "- x = fneg x"
definition minus_npfloat_def: "x - y = fadd x (fneg y)"
definition times_npfloat_def: "x * y = fmul x y"
definition divide_npfloat_def: "x div y = fdiv x y"
definition inverse_npfloat_def: "inverse x = fdiv (Fin 1) x"
definition abs_npfloat_def: "\<bar>x\<bar> = fabs x"
definition less_npfloat_def: "x < y \<longleftrightarrow> flt x y"
definition less_eq_npfloat_def: "x \<le> y \<longleftrightarrow> fle x y"

instance ..

end

section \<open>Vectors and matrices\<close>

text \<open>
  A one-dimensional numpy array is a list, a two-dimensional one a list of rows. The
  helpers are the numpy operations the source calls; sums run in index order from zero.
  They are total: on arrays whose shapes do not fit they pair the entries up to the
  shorter length, where numpy raises or broadcasts. The arrays of one run of the
  optimiser all have the dimension of the internal coordinates, and only
  \<open>update_hessian\<close> below writes the shape error out.
\<close>

type_synonym vec = "npfloat list"
type_synonym mat = "npfloat list list"

definition vdot :: "('a::{zero,plus,times}) list \<Rightarrow> 'a list \<Rightarrow> 'a" where
  \<comment> \<open>\<^verbatim>\<open>dot(x, y)\<close> of two vectors\<close>
  "vdot xs ys = foldl (+) 0 (map2 (*) xs ys)"

definition norm_vec :: "vec \<Rightarrow> npfloat" where
  \<comment> \<open>\<^verbatim>\<open>numpy.linalg.norm\<close> of a vector: the Euclidean norm\<close>
  "norm_vec xs = fsqrt (vdot xs xs)"

definition vadd :: "('a::plus) list \<Rightarrow> 'a list \<Rightarrow> 'a list" where
  "vadd xs ys = map2 (+) xs ys"

definition vsub :: "('a::minus) list \<Rightarrow> 'a list \<Rightarrow> 'a list" where
  "vsub xs ys = map2 (-) xs ys"

definition vscale :: "('a::times) \<Rightarrow> 'a list \<Rightarrow> 'a list" where
  \<comment> \<open>scalar times vector\<close>
  "vscale c xs = map (\<lambda>x. c * x) xs"

definition outer_self :: "('a::times) list \<Rightarrow> 'a list list" where
  \<comment> \<open>\<^verbatim>\<open>v[None, :]*v[:, None]\<close>: entry \<open>(i, j)\<close> is \<open>v[j]*v[i]\<close>\<close>
  "outer_self v = map (\<lambda>vi. map (\<lambda>vj. vj * vi) v) v"

definition mdot :: "('a::{zero,plus,times}) list list \<Rightarrow> 'a list list \<Rightarrow> 'a list list" where
  \<comment> \<open>\<^verbatim>\<open>A.dot(B)\<close> of two matrices\<close>
  "mdot A B = map (\<lambda>row. map (\<lambda>col. vdot row col) (transpose B)) A"

definition vmdot :: "('a::{zero,plus,times}) list \<Rightarrow> 'a list list \<Rightarrow> 'a list" where
  \<comment> \<open>\<^verbatim>\<open>v.dot(A)\<close>: vector times matrix\<close>
  "vmdot v A = map (\<lambda>col. vdot v col) (transpose A)"

definition mvdot :: "('a::{zero,plus,times}) list list \<Rightarrow> 'a list \<Rightarrow> 'a list" where
  \<comment> \<open>\<^verbatim>\<open>dot(A, v)\<close>: matrix times vector\<close>
  "mvdot A v = map (\<lambda>row. vdot row v) A"

definition madd :: "('a::plus) list list \<Rightarrow> 'a list list \<Rightarrow> 'a list list" where
  "madd A B = map2 vadd A B"

definition msub :: "('a::minus) list list \<Rightarrow> 'a list list \<Rightarrow> 'a list list" where
  "msub A B = map2 vsub A B"

definition msdiv :: "('a::inverse) list list \<Rightarrow> 'a \<Rightarrow> 'a list list" where
  \<comment> \<open>matrix divided by a scalar\<close>
  "msdiv A c = map (map (\<lambda>x. x / c)) A"

definition mscale :: "('a::times) \<Rightarrow> 'a list list \<Rightarrow> 'a list list" where
  \<comment> \<open>scalar times matrix\<close>
  "mscale c A = map (vscale c) A"

definition eye :: "nat \<Rightarrow> ('a::{zero,one}) list list" where
  \<comment> \<open>\<^verbatim>\<open>numpy.eye(n)\<close>\<close>
  "eye n = map (\<lambda>i. map (\<lambda>j. if i = j then 1 else 0) [0..<n]) [0..<n]"

definition square_mat :: "nat \<Rightarrow> 'a list list \<Rightarrow> bool" where
  "square_mat n A \<longleftrightarrow> length A = n \<and> list_all (\<lambda>row. length row = n) A"

definition symmetric :: "'a list list \<Rightarrow> bool" where
  "symmetric A \<longleftrightarrow> transpose A = A"

definition no_finite_entry :: "mat \<Rightarrow> bool" where
  \<comment> \<open>every entry is NaN or infinite\<close>
  "no_finite_entry A = list_all (list_all (\<lambda>x. \<not> is_finite x)) A"

section \<open>Exceptions and the collaborators outside the file\<close>

text \<open>
  A Python exception is a value of \<open>pyerror\<close>; a function that can raise returns
  \<open>pyerror + 'a\<close>, with \<open>Inl\<close> the exception.
\<close>

datatype pyerror =
  ValueError | IndexError | TypeError | AttributeError | LinAlgError | RootFindError

definition bind_err :: "pyerror + 'a \<Rightarrow> ('a \<Rightarrow> pyerror + 'b) \<Rightarrow> pyerror + 'b" where
  \<comment> \<open>run the rest only when no exception has been raised\<close>
  "bind_err m f = (case m of Inl e \<Rightarrow> Inl e | Inr x \<Rightarrow> f x)"

definition item0 :: "'a list \<Rightarrow> pyerror + 'a" where
  \<comment> \<open>\<^verbatim>\<open>xs[0]\<close>\<close>
  "item0 xs = (case xs of [] \<Rightarrow> Inl IndexError | x # _ \<Rightarrow> Inr x)"

definition need :: "'a option \<Rightarrow> pyerror + 'a" where
  \<comment> \<open>arithmetic on a field that holds \<^verbatim>\<open>None\<close> raises \<^verbatim>\<open>TypeError\<close>\<close>
  "need v = (case v of None \<Rightarrow> Inl TypeError | Some x \<Rightarrow> Inr x)"

definition need_point :: "'a option \<Rightarrow> pyerror + 'a" where
  \<comment> \<open>reading a field of a variable that holds \<^verbatim>\<open>None\<close> raises \<^verbatim>\<open>AttributeError\<close>\<close>
  "need_point v = (case v of None \<Rightarrow> Inl AttributeError | Some x \<Rightarrow> Inr x)"

text \<open>
  \<^verbatim>\<open>berny.py\<close> imports the module \<^verbatim>\<open>Math\<close> of its own package and calls numpy's
  eigen-solvers and linear solver. None of them is defined in the file, so the functions
  below take them as a parameter, the record \<open>kernel\<close>:
  \<^item> \<open>rms\<close>, \<open>fit_quartic\<close>, \<open>fit_cubic\<close>, \<open>findroot\<close>, \<open>ginv\<close> are the functions of
    \<^verbatim>\<open>Math\<close>. A fit returns the pair \<open>(t, E)\<close>; \<open>None\<close> stands for a result whose \<open>t\<close> is
    Python's \<^verbatim>\<open>None\<close>. \<open>findroot\<close> receives a function that can raise, and can raise.
  \<^item> \<open>eigvalsh\<close>, \<open>eigh\<close>, \<open>solve\<close> are \<^verbatim>\<open>numpy.linalg\<close>'s; each can raise.
\<close>

record kernel =
  rms :: "vec \<Rightarrow> npfloat"
  fit_quartic :: "npfloat \<Rightarrow> npfloat \<Rightarrow> npfloat \<Rightarrow> npfloat \<Rightarrow> (npfloat \<times> npfloat) option"
  fit_cubic :: "npfloat \<Rightarrow> npfloat \<Rightarrow> npfloat \<Rightarrow> npfloat \<Rightarrow> (npfloat \<times> npfloat) option"
  findroot :: "(npfloat \<Rightarrow> pyerror + npfloat) \<Rightarrow> npfloat \<Rightarrow> pyerror + npfloat"
  ginv :: "mat \<Rightarrow> mat"
  eigvalsh :: "mat \<Rightarrow> pyerror + vec"
  eigh :: "mat \<Rightarrow> pyerror + vec \<times> mat"
  solve :: "mat \<Rightarrow> vec \<Rightarrow> pyerror + vec"

text \<open>The dictionary \<^verbatim>\<open>params\<close>, after the defaults have been merged in.\<close>

record params =
  gradientmax :: npfloat
  gradientrms :: npfloat
  stepmax :: npfloat
  steprms :: npfloat
  maxsteps :: int
  trust :: npfloat
  debug :: "string option"

definition defaults :: params where
  "defaults = \<lparr> gradientmax = Fin (45 / 100000), gradientrms = Fin (3 / 10000),
     stepmax = Fin (18 / 10000), steprms = Fin (12 / 10000), maxsteps = 100,
     trust = Fin (3 / 10), debug = None \<rparr>"

section \<open>Trust radius\<close>

text \<open>
  \<^verbatim>\<open>update_trust(trust, dE, dE_predicted, dq)\<close>. The ratio is a numpy division: with
  \<open>dE_predicted = 0\<close> and \<open>dE \<noteq> 0\<close> it is an infinity, not an exception.
\<close>

definition update_trust :: "npfloat \<Rightarrow> npfloat \<Rightarrow> npfloat \<Rightarrow> vec \<Rightarrow> npfloat" where
  "update_trust trust' dE dE_predicted dq =
     (let r = (if dE \<noteq> Fin 0 then dE / dE_predicted else Fin 1) in
      if r < Fin 0.25 then norm_vec dq / Fin 4
      else if r > Fin 0.75 \<and> \<bar>norm_vec dq - trust'\<bar> < Fin (1 / 10 ^ 10) then Fin 2 * trust'
      else trust')"

section \<open>Line search\<close>

text \<open>\<^verbatim>\<open>linear_search(E0, E1, g0, g1)\<close>; the fallback returns the integers 0 and 1 for \<open>t\<close>.\<close>

definition linear_search ::
  "kernel \<Rightarrow> npfloat \<Rightarrow> npfloat \<Rightarrow> npfloat \<Rightarrow> npfloat \<Rightarrow> npfloat \<times> npfloat" where
  "linear_search K E0 E1 g0 g1 =
     (let no_fit = (if E0 \<le> E1 then (Fin 0, E0) else (Fin 1, E1));
          cubic = (case fit_cubic K E0 E1 g0 g1 of
                     None \<Rightarrow> no_fit
                   | Some (t, E) \<Rightarrow> if t < Fin 0 \<or> t > Fin 1 then no_fit else (t, E))
      in case fit_quartic K E0 E1 g0 g1 of
           None \<Rightarrow> cubic
         | Some (t, E) \<Rightarrow> if t < Fin (- 1) \<or> t > Fin 2 then cubic else (t, E))"

text \<open>
  The spec's words for the same function: the quartic extremum when the quartic fit
  succeeds with \<open>t\<close> in \<open>[-1, 2]\<close>, else the cubic one when that fit succeeds with \<open>t\<close> in
  \<open>[0, 1]\<close>, else the endpoint of lower energy.
\<close>

definition in_interval :: "npfloat \<Rightarrow> npfloat \<Rightarrow> npfloat \<Rightarrow> bool" where
  "in_interval lo hi t \<longleftrightarrow> lo \<le> t \<and> t \<le> hi"

definition fit_accepted ::
  "(npfloat \<times> npfloat) option \<Rightarrow> npfloat \<Rightarrow> npfloat \<Rightarrow> bool" where
  "fit_accepted fit lo hi = (case fit of None \<Rightarrow> False | Some (t, E) \<Rightarrow> in_interval lo hi t)"

definition interpolate_spec ::
  "kernel \<Rightarrow> npfloat \<Rightarrow> npfloat \<Rightarrow> npfloat \<Rightarrow> npfloat \<Rightarrow> npfloat \<times> npfloat" where
  "interpolate_spec K E0 E1 g0 g1 =
     (if fit_accepted (fit_quartic K E0 E1 g0 g1) (Fin (- 1)) (Fin 2)
        then the (fit_quartic K E0 E1 g0 g1)
      else if fit_accepted (fit_cubic K E0 E1 g0 g1) (Fin 0) (Fin 1)
        then the (fit_cubic K E0 E1 g0 g1)
      else if E0 \<le> E1 then (Fin 0, E0)
      else if E0 > E1 then (Fin 1, E1)
      else undefined)"

definition fit_not_nan :: "(npfloat \<times> npfloat) option \<Rightarrow> bool" where
  "fit_not_nan fit = (case fit of None \<Rightarrow> True | Some (t, E) \<Rightarrow> t \<noteq> NaN)"

text \<open>
  The same words with NaN written in: a fit is taken when its \<open>t\<close> lies in the interval
  or is NaN, and the endpoint 1 is returned when \<open>E0 > E1\<close> or an energy is NaN.
\<close>

definition fit_taken ::
  "(npfloat \<times> npfloat) option \<Rightarrow> npfloat \<Rightarrow> npfloat \<Rightarrow> bool" where
  "fit_taken fit lo hi =
     (case fit of None \<Rightarrow> False | Some (t, E) \<Rightarrow> in_interval lo hi t \<or> t = NaN)"

definition interpolate_amended ::
  "kernel \<Rightarrow> npfloat \<Rightarrow> npfloat \<Rightarrow> npfloat \<Rightarrow> npfloat \<Rightarrow> npfloat \<times> npfloat" where
  "interpolate_amended K E0 E1 g0 g1 =
     (if fit_taken (fit_quartic K E0 E1 g0 g1) (Fin (- 1)) (Fin 2)
        then the (fit_quartic K E0 E1 g0 g1)
      else if fit_taken (fit_cubic K E0 E1 g0 g1) (Fin 0) (Fin 1)
        then the (fit_cubic K E0 E1 g0 g1)
      else if E0 \<le> E1 then (Fin 0, E0)
      else if E0 > E1 \<or> E0 = NaN \<or> E1 = NaN then (Fin 1, E1)
      else undefined)"

section \<open>Convergence test\<close>

text \<open>
  \<^verbatim>\<open>converged(forces, step, on_sphere, params)\<close>. A criterion is a tuple of three items
  (name, value, threshold) or, for the sphere, of two (name, result). The loop reads
  item 2 of either, which a tuple of two does not have.
\<close>

datatype criterion = Crit3 string npfloat npfloat | Crit2 string bool

fun fmax :: "npfloat \<Rightarrow> npfloat \<Rightarrow> npfloat" where
  "fmax NaN _ = NaN"
| "fmax _ NaN = NaN"
| "fmax a b = (if a < b then b else a)"

fun np_max :: "vec \<Rightarrow> pyerror + npfloat" where
  \<comment> \<open>\<^verbatim>\<open>numpy.max\<close>: raises on an empty array, propagates NaN\<close>
  "np_max [] = Inl ValueError"
| "np_max (x # xs) = Inr (foldl fmax x xs)"

fun criteria_loop :: "criterion list \<Rightarrow> bool \<Rightarrow> pyerror + bool" where
  "criteria_loop [] all_matched = Inr all_matched"
| "criteria_loop (Crit3 name v thr # cs) all_matched =
     (let result = (v < thr) in criteria_loop cs (if \<not> result then False else all_matched))"
| "criteria_loop (Crit2 name res # cs) all_matched = Inl IndexError"

definition converged :: "kernel \<Rightarrow> vec \<Rightarrow> vec \<Rightarrow> bool \<Rightarrow> params \<Rightarrow> pyerror + bool" where
  "converged K forces step on_sphere p =
     (case np_max (map abs forces) of
        Inl e \<Rightarrow> Inl e
      | Inr fmx \<Rightarrow>
          let criteria = [Crit3 ''Gradient RMS'' (rms K forces) (gradientrms p),
                          Crit3 ''Gradient maximum'' fmx (gradientmax p)] in
          if on_sphere then
            criteria_loop (criteria @ [Crit2 ''Minimization on sphere'' False]) True
          else
            (case np_max (map abs step) of
               Inl e \<Rightarrow> Inl e
             | Inr smx \<Rightarrow>
                 criteria_loop (criteria @ [Crit3 ''Step RMS'' (rms K step) (steprms p),
                                            Crit3 ''Step maximum'' smx (stepmax p)]) True))"

section \<open>Hessian update\<close>

text \<open>
  \<^verbatim>\<open>update_hessian(H, dq, dg)\<close> overwrites \<open>H\<close> with \<open>H + dH\<close>; the model returns the new
  matrix. The source divides without looking at the two denominators. numpy raises
  \<^verbatim>\<open>ValueError\<close> when the shapes do not fit: the products are defined exactly when \<open>dq\<close>
  and \<open>dg\<close> have one length \<open>n\<close> and \<open>H\<close> is \<open>n \<times> n\<close>. Of the log lines what can raise is
  kept: they format \<^verbatim>\<open>abs(dH).max()\<close>, which raises \<^verbatim>\<open>ValueError\<close> on an empty \<open>dH\<close>, that
  is for \<open>n = 0\<close>, before \<open>H\<close> is assigned; \<^verbatim>\<open>Math.rms\<close> is taken to return. The definition
  is written once for any number type, so that it can be read over the reals as well.
\<close>

definition update_hessian ::
  "('a::{zero,plus,minus,times,inverse}) list list \<Rightarrow> 'a list \<Rightarrow> 'a list \<Rightarrow>
     pyerror + 'a list list" where
  "update_hessian H dq dg =
     (if length dg = length dq \<and> square_mat (length dq) H then
        let dH = msub (msdiv (outer_self dg) (vdot dq dg))
                      (msdiv (mdot (mdot H (outer_self dq)) H) (vdot (vmdot dq H) dq))
        in if dH = [] then Inl ValueError else Inr (madd H dH)
      else Inl ValueError)"

section \<open>Quadratic step\<close>

text \<open>
  \<^verbatim>\<open>quadratic_step(g, H, w, trust)\<close>. Reading \<^verbatim>\<open>V[:-1, 0]\<close>, \<^verbatim>\<open>V[-1, 0]\<close>, \<^verbatim>\<open>D[0]\<close> and
  \<^verbatim>\<open>ev[0]\<close> raises \<^verbatim>\<open>IndexError\<close> on an empty array. Of the log lines only what can raise
  is kept: they format \<^verbatim>\<open>ev[0]\<close> and \<^verbatim>\<open>max(abs(dq))\<close>, and Python's \<^verbatim>\<open>max\<close> of an
  empty sequence raises \<^verbatim>\<open>ValueError\<close>.
\<close>

definition steplength :: "kernel \<Rightarrow> vec \<Rightarrow> mat \<Rightarrow> npfloat \<Rightarrow> npfloat \<Rightarrow> pyerror + npfloat" where
  "steplength K g0 H trust' l =
     bind_err (solve K (msub (mscale l (eye (length H))) H) g0)
       (\<lambda>x. Inr (norm_vec x - trust'))"

definition quadratic_step ::
  "kernel \<Rightarrow> vec \<Rightarrow> mat \<Rightarrow> vec \<Rightarrow> npfloat \<Rightarrow> pyerror + vec \<times> npfloat \<times> bool" where
  "quadratic_step K g0 H w trust' =
     bind_err (eigvalsh K (msdiv (madd H (transpose H)) (Fin 2))) (\<lambda>ev.
     let rfo = map2 (\<lambda>row gi. row @ [gi]) H g0 @ [g0 @ [Fin 0]] in
     bind_err (eigh K (msdiv (madd rfo (transpose rfo)) (Fin 2))) (\<lambda>(D, V).
     if V = [] \<or> list_ex (\<lambda>row. row = []) V then Inl IndexError else
     let dq = map (\<lambda>row. hd row / hd (last V)) (butlast V) in
     bind_err (item0 D) (\<lambda>l.
     bind_err
       (if norm_vec dq \<le> trust' then Inr (dq, l, False)
        else
          bind_err (item0 ev) (\<lambda>ev0.
          bind_err (findroot K (steplength K g0 H trust') ev0) (\<lambda>l'.
          bind_err (solve K (msub (mscale l' (eye (length H))) H) g0) (\<lambda>dq'.
          Inr (dq', l', False)))))
       (\<lambda>(dq, l, on_sphere).
     let dE = vdot g0 dq + Fin 0.5 * vdot (vmdot dq H) dq in
     if ev = [] then Inl IndexError
     else if dq = [] then Inl ValueError
     else Inr (dq, dE, on_sphere)))))"

section \<open>Debug trace\<close>

text \<open>
  The values a debug record holds, and what \<^verbatim>\<open>json.dump\<close> writes for them. The standard
  encoder writes \<^verbatim>\<open>None\<close>, integers, floats, strings, lists and dictionaries by itself; a
  float that is NaN or infinite is written as the token \<^verbatim>\<open>NaN\<close>, \<^verbatim>\<open>Infinity\<close> or
  \<^verbatim>\<open>-Infinity\<close>. Only for an object of another type does it call the method \<^verbatim>\<open>default\<close>
  of the encoder class and encode what that returns. The layout of the text
  (\<^verbatim>\<open>indent=4\<close>) is not modelled: a file holds a \<open>json\<close> value.
\<close>

datatype pyobj =
  PyNone | PyInt int | PyFloat npfloat | NpNan | NpFloat64 npfloat | PyStr string
| PyList "pyobj list" | PyDict "(string \<times> pyobj) list"
| NdArray1 vec | NdArray2 mat

datatype json =
  JNull | JInt int | JNum real | JNaN | JInfinity | JNegInfinity | JStr string
| JArray "json list" | JObject "(string \<times> json) list"

text \<open>
  Three kinds of float are told apart: \<open>PyFloat\<close> is a Python float, \<open>NpNan\<close> is the one
  object \<^verbatim>\<open>np.nan\<close> (a Python float that is NaN), and \<open>NpFloat64\<close> is a numpy scalar, which
  is a Python float as well and has \<^verbatim>\<open>tolist\<close>.

  \<^verbatim>\<open>ArrayEncoder.default(obj)\<close>. The test \<^verbatim>\<open>obj is np.nan\<close> holds for the object \<^verbatim>\<open>np.nan\<close>
  only. An array and a numpy scalar have \<^verbatim>\<open>tolist\<close>; for the other types the
  \<^verbatim>\<open>AttributeError\<close> is caught and the base class raises \<^verbatim>\<open>TypeError\<close>.
\<close>

fun ArrayEncoder_default :: "pyobj \<Rightarrow> pyerror + pyobj" where
  "ArrayEncoder_default NpNan = Inr PyNone"
| "ArrayEncoder_default (NpFloat64 x) = Inr (PyFloat x)"
| "ArrayEncoder_default (NdArray1 v) = Inr (PyList (map PyFloat v))"
| "ArrayEncoder_default (NdArray2 m) = Inr (PyList (map (\<lambda>row. PyList (map PyFloat row)) m))"
| "ArrayEncoder_default _ = Inl TypeError"

fun json_float :: "npfloat \<Rightarrow> json" where
  "json_float (Fin a) = JNum a"
| "json_float NaN = JNaN"
| "json_float PInf = JInfinity"
| "json_float NInf = JNegInfinity"

fun sequence_err :: "(pyerror + 'a) list \<Rightarrow> pyerror + 'a list" where
  "sequence_err [] = Inr []"
| "sequence_err (Inl e # _) = Inl e"
| "sequence_err (Inr x # ms) = bind_err (sequence_err ms) (\<lambda>xs. Inr (x # xs))"

fun json_encode :: "(pyobj \<Rightarrow> pyerror + json) \<Rightarrow> pyobj \<Rightarrow> pyerror + json" where
  "json_encode dflt PyNone = Inr JNull"
| "json_encode dflt (PyInt i) = Inr (JInt i)"
| "json_encode dflt (PyFloat x) = Inr (json_float x)"
| "json_encode dflt NpNan = Inr JNaN"
| "json_encode dflt (NpFloat64 x) = Inr (json_float x)"
| "json_encode dflt (PyStr s) = Inr (JStr s)"
| "json_encode dflt (PyList xs) =
     bind_err (sequence_err (map (json_encode dflt) xs)) (\<lambda>js. Inr (JArray js))"
| "json_encode dflt (PyDict kvs) =
     bind_err (sequence_err (map (json_encode dflt) (map snd kvs)))
       (\<lambda>js. Inr (JObject (zip (map fst kvs) js)))"
| "json_encode dflt (NdArray1 v) = dflt (NdArray1 v)"
| "json_encode dflt (NdArray2 m) = dflt (NdArray2 m)"

definition json_dump :: "pyobj \<Rightarrow> pyerror + json" where
  \<comment> \<open>\<^verbatim>\<open>json.dump(obj, f, indent=4, cls=ArrayEncoder)\<close>; what \<^verbatim>\<open>default\<close> returns holds
      no array any more\<close>
  "json_dump obj =
     json_encode (\<lambda>x. bind_err (ArrayEncoder_default x) (json_encode (\<lambda>_. Inl TypeError))) obj"

section \<open>The optimiser\<close>

text \<open>
  \<^verbatim>\<open>PESPoint = namedtuple('PESPoint', 'q E g')\<close>; the fields \<open>E\<close> and \<open>g\<close> can hold
  \<^verbatim>\<open>None\<close>. The selectors are \<open>pes_q\<close>, \<open>pes_E\<close>, \<open>pes_g\<close>.
\<close>

datatype PESPoint = PESPoint (pes_q: vec) (pes_E: "npfloat option") (pes_g: "vec option")

text \<open>
  The class \<^verbatim>\<open>InternalCoords\<close> and the geometry class are imported from \<^verbatim>\<open>geomlib\<close>, which
  is not in the file: the object \<^verbatim>\<open>coords\<close> is a parameter, a record of its methods, with
  \<open>len_coords\<close> for \<^verbatim>\<open>len(coords)\<close> and \<open>geom_coords\<close> for the attribute \<^verbatim>\<open>geom.coords\<close>.
  \<^verbatim>\<open>update_geom\<close> changes the geometry it is given and returns the new internal
  coordinates; the model returns both.
\<close>

record 'geom coords =
  hessian_guess :: "'geom \<Rightarrow> mat"
  weights :: "'geom \<Rightarrow> vec"
  B_matrix :: "'geom \<Rightarrow> mat"
  eval_geom :: "'geom \<Rightarrow> vec"
  update_geom :: "'geom \<Rightarrow> vec \<Rightarrow> vec \<Rightarrow> mat \<Rightarrow> 'geom \<times> vec"
  len_coords :: nat
  geom_coords :: "'geom \<Rightarrow> mat"

text \<open>
  The generator \<^verbatim>\<open>Berny\<close> keeps its local variables between two \<^verbatim>\<open>yield\<close>s. They are the
  fields of the state; \<open>trust_radius\<close>, \<open>coord_weights\<close> and \<open>debug_list\<close> are the locals
  \<^verbatim>\<open>trust\<close>, \<^verbatim>\<open>weights\<close> and \<^verbatim>\<open>debug\<close>, and \<open>trace_files\<close> is the file system the trace is
  written to, a file name mapped to the value the file holds.
\<close>

record 'geom berny_state =
  geom :: 'geom
  nsteps :: int
  trust_radius :: npfloat
  hessian :: mat
  coord_weights :: vec
  debug_list :: "pyobj list"
  best :: "PESPoint option"
  previous :: "PESPoint option"
  predicted :: "PESPoint option"
  interpolated :: "PESPoint option"
  trace_files :: "string \<Rightarrow> json option"

text \<open>
  The driver sends an energy and the gradients and resumes the generator, which runs one
  pass of the loop body: it stops at the next \<^verbatim>\<open>yield geom\<close>, or it leaves the loop by
  one of the two \<^verbatim>\<open>break\<close>s and returns. The three ways a pass ends are the outcomes: the
  first \<^verbatim>\<open>break\<close> (step budget) is \<open>Exhausted\<close>, the second (convergence) is \<open>Converged\<close>.
  The gradients, one row per atom in the source, are kept as one flat vector, which is
  what \<^verbatim>\<open>reshape(-1)\<close> makes of them. Of the log lines only what can raise is kept:
  \<^verbatim>\<open>max(abs(dq))\<close> of an empty step. Errors of opening or writing the trace file are not
  modelled.
\<close>

datatype 'geom outcome = Continue 'geom | Converged | Exhausted

definition berny_init ::
  "'geom coords \<Rightarrow> params \<Rightarrow> (string \<Rightarrow> json option) \<Rightarrow> 'geom \<Rightarrow> 'geom berny_state" where
  \<comment> \<open>the code of \<^verbatim>\<open>Berny\<close> before the loop\<close>
  "berny_init C p fs geom0 =
     \<lparr> geom = geom0, nsteps = 0, trust_radius = trust p,
       hessian = hessian_guess C geom0, coord_weights = weights C geom0,
       debug_list = [], best = None, previous = None, predicted = None,
       interpolated = None, trace_files = fs \<rparr>"

definition lower_energy :: "npfloat \<Rightarrow> PESPoint option \<Rightarrow> bool" where
  \<comment> \<open>\<^verbatim>\<open>current.E < best.E\<close>; it is read after the first pass only, when \<^verbatim>\<open>best\<close> holds a
      point with an energy\<close>
  "lower_energy cur_E b =
     (case b of None \<Rightarrow> False
      | Some bp \<Rightarrow> (case pes_E bp of None \<Rightarrow> False | Some best_E \<Rightarrow> cur_E < best_E))"

definition write_debug ::
  "params \<Rightarrow> pyobj list \<Rightarrow> (string \<Rightarrow> json option) \<Rightarrow> pyobj \<Rightarrow>
     pyerror + pyobj list \<times> (string \<Rightarrow> json option)" where
  \<comment> \<open>the block under \<^verbatim>\<open>if params['debug']:\<close>; an empty file name is false\<close>
  "write_debug p dbg fs entry =
     (case debug p of
        None \<Rightarrow> Inr (dbg, fs)
      | Some path \<Rightarrow>
          if path = [] then Inr (dbg, fs)
          else
            let dbg' = dbg @ [entry] in
            bind_err (json_dump (PyList dbg')) (\<lambda>j. Inr (dbg', fs(path := Some j))))"

definition berny_step ::
  "'geom coords \<Rightarrow> kernel \<Rightarrow> params \<Rightarrow> 'geom berny_state \<Rightarrow> npfloat \<Rightarrow> vec \<Rightarrow>
     pyerror + 'geom outcome \<times> 'geom berny_state" where
  "berny_step C K p st energy gradients =
     (let n = nsteps st + 1 in
      if n > maxsteps p then Inr (Exhausted, st\<lparr>nsteps := n\<rparr>)
      else
      let B = B_matrix C (geom st);
          B_inv = ginv K B;
          cur_q = eval_geom C (geom st);
          cur_g = mvdot (transpose B_inv) gradients;
          current = PESPoint cur_q (Some energy) (Some cur_g)
      in
      bind_err
        (if n > 1 then
           bind_err (need_point (best st)) (\<lambda>bp.
           bind_err (need (pes_g bp)) (\<lambda>best_g.
           bind_err (update_hessian (hessian st) (vsub cur_q (pes_q bp)) (vsub cur_g best_g))
             (\<lambda>H'.
           bind_err (need_point (previous st)) (\<lambda>pv.
           bind_err (need (pes_E pv)) (\<lambda>previous_E.
           bind_err (need_point (predicted st)) (\<lambda>pd.
           bind_err (need (pes_E pd)) (\<lambda>predicted_E.
           bind_err (need_point (interpolated st)) (\<lambda>ip.
           bind_err (need (pes_E ip)) (\<lambda>interpolated_E.
           let trust' = update_trust (trust_radius st) (energy - previous_E)
                          (predicted_E - interpolated_E) (vsub (pes_q pd) (pes_q ip));
               dq = vsub (pes_q bp) cur_q
           in
           bind_err (need (pes_E bp)) (\<lambda>best_E.
           let (t, E) = linear_search K energy best_E (vdot cur_g dq) (vdot best_g dq) in
           Inr (H', trust',
                PESPoint (vadd cur_q (vscale t dq)) (Some E)
                  (Some (vadd (vscale t best_g) (vscale (Fin 1 - t) cur_g))))))))))))))
         else Inr (hessian st, trust_radius st, current))
        (\<lambda>(H', trust', interp).
      let proj = mdot B B_inv;
          hessian_proj = madd (mdot (mdot proj H') proj)
                           (mscale (Fin 1000) (msub (eye (len_coords C)) proj))
      in
      bind_err (need (pes_g interp)) (\<lambda>interp_g.
      bind_err (quadratic_step K (mvdot proj interp_g) hessian_proj (coord_weights st) trust')
        (\<lambda>(dq, dE, on_sphere).
      bind_err (need (pes_E interp)) (\<lambda>interp_E.
      let pred = PESPoint (vadd (pes_q interp) dq) (Some (interp_E + dE)) None;
          dq2 = vsub (pes_q pred) cur_q
      in
      if dq2 = [] then Inl ValueError
      else
      let (geom', q') = update_geom C (geom st) cur_q (vsub (pes_q pred) cur_q) B_inv;
          future = PESPoint q' None None
      in
      bind_err
        (write_debug p (debug_list st) (trace_files st)
           (PyDict [(''nstep'', PyInt n), (''trust'', PyFloat trust'),
                    (''hessian'', NdArray2 H'), (''gradients'', NdArray1 gradients),
                    (''coords'', NdArray2 (geom_coords C geom')),
                    (''energy'', PyFloat energy), (''q'', NdArray1 cur_q),
                    (''dq'', NdArray1 dq2)]))
        (\<lambda>(dbg', fs').
      bind_err (converged K gradients (vsub (pes_q future) cur_q) on_sphere p) (\<lambda>conv.
      let st' = st\<lparr> geom := geom', nsteps := n, trust_radius := trust', hessian := H',
                    debug_list := dbg', predicted := Some pred, interpolated := Some interp,
                    trace_files := fs' \<rparr>
      in
      if conv then Inr (Converged, st')
      else Inr (Continue geom',
                st'\<lparr> previous := Some current,
                     best := (if n = 1 \<or> lower_energy energy (best st) then Some current
                              else best st) \<rparr>))))))))"

section \<open>A one-dimensional system\<close>

text \<open>
  The smallest instance of the collaborators, for running the functions on numbers: the
  geometry is one Cartesian coordinate \<open>x\<close>, which is also the only internal coordinate,
  so the B-matrix and its inverse are the \<open>1 \<times> 1\<close> unit matrix; the Hessian guess is 3.
  The kernel works on \<open>1 \<times> 1\<close> systems: both polynomial fits report failure, the
  eigen-solver knows the two augmented matrices that occur below (eigenvectors are given
  up to their length, which \<^verbatim>\<open>V[:-1, 0]/V[-1, 0]\<close> does not depend on), and the root
  finder proposes \<open>-11/3\<close> and checks that it is a root.
\<close>

definition coords1 :: "npfloat coords" where
  "coords1 =
     \<lparr> hessian_guess = (\<lambda>x. [[Fin 3]]), weights = (\<lambda>x. [Fin 1]),
       B_matrix = (\<lambda>x. [[Fin 1]]), eval_geom = (\<lambda>x. [x]),
       update_geom = (\<lambda>x q0 dq B_inv. (x + hd dq, vadd q0 dq)),
       len_coords = 1, geom_coords = (\<lambda>x. [[x, Fin 0, Fin 0]]) \<rparr>"

definition kernel1 :: kernel where
  "kernel1 =
     \<lparr> rms = (\<lambda>v. fsqrt (vdot v v / Fin (real (length v)))),
       fit_quartic = (\<lambda>E0 E1 g0 g1. None),
       fit_cubic = (\<lambda>E0 E1 g0 g1. None),
       findroot = (\<lambda>f x0. if f (Fin (- 11 / 3)) = Inr (Fin 0) then Inr (Fin (- 11 / 3))
                           else Inl RootFindError),
       ginv = (\<lambda>B. map (map (\<lambda>b. Fin 1 / b)) B),
       eigvalsh = (\<lambda>M. case M of [[h]] \<Rightarrow> Inr [h] | _ \<Rightarrow> Inl LinAlgError),
       eigh = (\<lambda>M. if M = [[Fin 3, Fin 2], [Fin 2, Fin 0]]
                      then Inr ([Fin (- 1), Fin 4], [[Fin 1, Fin 2], [Fin (- 2), Fin 1]])
                    else if M = [[Fin (20 / 3), Fin 0], [Fin 0, Fin 0]]
                      then Inr ([Fin 0, Fin (20 / 3)], [[Fin 0, Fin 1], [Fin 1, Fin 0]])
                    else Inl LinAlgError),
       solve = (\<lambda>M b. case (M, b) of
                         ([[m]], [x]) \<Rightarrow> if m = Fin 0 then Inl LinAlgError else Inr [x / m]
                       | _ \<Rightarrow> Inl LinAlgError) \<rparr>"

text \<open>
  A run of the optimiser on this system with the default trust radius \<open>0.3\<close>. It starts at
  \<open>x = 2/3\<close>, where the driver reports the energy \<open>2/3\<close> and the gradient \<open>2\<close> (the
  surface \<open>3/2 x\<^sup>2\<close>): the pure RFO step \<open>-1/2\<close> is longer than the trust radius, the step
  on the sphere is \<open>-3/10\<close>, and the new geometry is \<open>11/30\<close>. \<open>state1\<close> is the state
  after this pass. At \<open>11/30\<close> the driver reports the energy \<open>1/5\<close> and a zero gradient;
  \<open>state2\<close> is the state after the second pass.
\<close>

definition params1 :: params where
  "params1 = defaults\<lparr>maxsteps := 1\<rparr>"

definition point1 :: PESPoint where
  "point1 = PESPoint [Fin (2 / 3)] (Some (Fin (2 / 3))) (Some [Fin 2])"

definition state1 :: "npfloat berny_state" where
  "state1 =
     \<lparr> geom = Fin (11 / 30), nsteps = 1, trust_radius = Fin (3 / 10),
       hessian = [[Fin 3]], coord_weights = [Fin 1], debug_list = [],
       best = Some point1, previous = Some point1,
       predicted = Some (PESPoint [Fin (11 / 30)] (Some (Fin (121 / 600))) None),
       interpolated = Some point1, trace_files = (\<lambda>name. None) \<rparr>"

definition point2 :: PESPoint where
  "point2 = PESPoint [Fin (11 / 30)] (Some (Fin (1 / 5))) (Some [Fin 0])"

definition state2 :: "npfloat berny_state" where
  "state2 =
     \<lparr> geom = Fin (11 / 30), nsteps = 2, trust_radius = Fin (3 / 5),
       hessian = [[Fin (20 / 3)]], coord_weights = [Fin 1], debug_list = [],
       best = Some point1, previous = Some point1,
       predicted = Some (PESPoint [Fin (11 / 30)] (Some (Fin (1 / 5))) None),
       interpolated = Some point2, trace_files = (\<lambda>name. None) \<rparr>"

text \<open>A kernel whose quartic fit lands outside \<open>[-1, 2]\<close> and whose cubic fit is accepted.\<close>

definition kernel_fits :: kernel where
  "kernel_fits =
     kernel1\<lparr> fit_quartic := (\<lambda>E0 E1 g0 g1. Some (Fin 3, Fin 0)),
              fit_cubic := (\<lambda>E0 E1 g0 g1. Some (Fin (1 / 2), Fin (1 / 10))) \<rparr>"

text \<open>A kernel whose quartic fit returns NaN for \<open>t\<close>; its cubic fit fails.\<close>

definition kernel_nan :: kernel where
  "kernel_nan = kernel1\<lparr> fit_quartic := (\<lambda>E0 E1 g0 g1. Some (NaN, Fin (1 / 4))) \<rparr>"

section \<open>Properties\<close>

subsection \<open>Auxiliary facts\<close>

lemmas npfloat_ops =
  zero_npfloat_def one_npfloat_def plus_npfloat_def uminus_npfloat_def minus_npfloat_def
  times_npfloat_def divide_npfloat_def abs_npfloat_def less_npfloat_def less_eq_npfloat_def

lemmas la_defs =
  vdot_def vadd_def vsub_def vscale_def outer_self_def mdot_def vmdot_def mvdot_def
  madd_def msub_def msdiv_def mscale_def eye_def

lemma bind_err_simps [simp]:
  "bind_err (Inl e) f = Inl e" "bind_err (Inr x) f = f x"
  by (simp_all add: bind_err_def)

lemma bind_err_Inr_iff: "bind_err m f = Inr y \<longleftrightarrow> (\<exists>x. m = Inr x \<and> f x = Inr y)"
  by (cases m) simp_all

lemma upt_one [simp]: "[0..<1] = [0]"
  by (simp add: upt_rec)

lemma norm_vec_single: "norm_vec [Fin a] = Fin \<bar>a\<bar>"
  by (simp add: norm_vec_def vdot_def npfloat_ops)

lemma rms_kernel1_single: "rms kernel1 [Fin a] = Fin \<bar>a\<bar>"
  by (simp add: kernel1_def vdot_def npfloat_ops)

lemma ginv_kernel1_unit: "ginv kernel1 [[Fin 1]] = [[Fin 1]]"
  by (simp add: kernel1_def npfloat_ops)

lemma fits_kernel1: "fit_quartic kernel1 a b c d = None" "fit_cubic kernel1 a b c d = None"
  by (simp_all add: kernel1_def)

subsection \<open>Quadratic step\<close>

text \<open>The two quadratic steps of the one-dimensional run: on the sphere, and pure RFO.\<close>

lemma quadratic_step_1d_sphere:
  "quadratic_step kernel1 [Fin 2] [[Fin 3]] w (Fin (3 / 10))
     = Inr ([Fin (- (3 / 10))], Fin (- (93 / 200)), False)"
  by (simp add: quadratic_step_def kernel1_def steplength_def item0_def Let_def
      la_defs norm_vec_single npfloat_ops)

lemma quadratic_step_1d_rfo:
  "quadratic_step kernel1 [Fin 0] [[Fin (20 / 3)]] w (Fin (3 / 5)) = Inr ([Fin 0], Fin 0, False)"
  by (simp add: quadratic_step_def kernel1_def steplength_def item0_def Let_def
      la_defs norm_vec_single npfloat_ops)

text \<open>
  C1. Whenever \<open>quadratic_step\<close> returns, the flag \<open>on_sphere\<close> it returns is false: the
  pure RFO branch sets it to false and the branch that minimises on the sphere sets
  it to false as well.
\<close>

theorem quadratic_step_on_sphere_false:
  "quadratic_step K g0 H w tr = Inr (dq, dE, on_sphere) \<Longrightarrow> \<not> on_sphere"
  unfolding quadratic_step_def
  by (auto simp: bind_err_Inr_iff Let_def split: if_splits prod.splits)

theorem quadratic_step_on_sphere_false_witness:
  "quadratic_step kernel1 [Fin 2] [[Fin 3]] [Fin 1] (Fin (3 / 10))
     = Inr ([Fin (- (3 / 10))], Fin (- (93 / 200)), False) \<and> \<not> False"
proof -
  have h: "quadratic_step kernel1 [Fin 2] [[Fin 3]] [Fin 1] (Fin (3 / 10))
             = Inr ([Fin (- (3 / 10))], Fin (- (93 / 200)), False)"
    by (rule quadratic_step_1d_sphere)
  show ?thesis
    using h quadratic_step_on_sphere_false [OF h] by simp
qed

subsection \<open>Hessian update\<close>

lemma square_matD:
  "square_mat n A \<Longrightarrow> length A = n"
  "square_mat n A \<Longrightarrow> i < n \<Longrightarrow> length (A ! i) = n"
  by (auto simp: square_mat_def list_all_length)

lemma square_matI:
  "length A = n \<Longrightarrow> (\<And>i. i < n \<Longrightarrow> length (A ! i) = n) \<Longrightarrow> square_mat n A"
  by (auto simp: square_mat_def list_all_length)

lemma transpose_square:
  assumes "square_mat n A"
  shows "transpose A = map (\<lambda>i. map (\<lambda>j. A ! j ! i) [0..<n]) [0..<n]"
proof -
  have "transpose A = map (\<lambda>i. map (\<lambda>j. A ! j ! i) [0..<length A]) [0..<n]"
    using assms by (intro transpose_rectangle) (auto simp: square_mat_def list_all_length)
  then show ?thesis using assms by (simp add: square_mat_def)
qed

lemma square_outer_self: "square_mat (length v) (outer_self v)"
  by (simp add: square_mat_def outer_self_def list_all_length)

lemma square_mdot:
  assumes "square_mat n A" "square_mat n B"
  shows "square_mat n (mdot A B)"
  using assms by (intro square_matI) (simp_all add: mdot_def transpose_square square_matD)

lemma square_msdiv: "square_mat n A \<Longrightarrow> square_mat n (msdiv A c)"
  by (simp add: square_mat_def msdiv_def list_all_length)

lemma square_msub: "square_mat n A \<Longrightarrow> square_mat n B \<Longrightarrow> square_mat n (msub A B)"
  by (simp add: square_mat_def msub_def vsub_def list_all_length)

lemma square_madd: "square_mat n A \<Longrightarrow> square_mat n B \<Longrightarrow> square_mat n (madd A B)"
  by (simp add: square_mat_def madd_def vadd_def list_all_length)

text \<open>
  On well-shaped arguments of dimension at least 1 the update returns \<open>H + dH\<close>, an
  \<open>n \<times> n\<close> matrix; for \<open>n = 0\<close> it raises.
\<close>

lemma update_hessian_returns:
  assumes "length dg = length dq" and "square_mat (length dq) H" and "dq \<noteq> []"
  shows "update_hessian H dq dg =
           Inr (madd H (msub (msdiv (outer_self dg) (vdot dq dg))
                  (msdiv (mdot (mdot H (outer_self dq)) H) (vdot (vmdot dq H) dq))))"
    and "square_mat (length dq)
           (madd H (msub (msdiv (outer_self dg) (vdot dq dg))
                  (msdiv (mdot (mdot H (outer_self dq)) H) (vdot (vmdot dq H) dq))))"
proof -
  let ?A = "msdiv (outer_self dg) (vdot dq dg)"
  let ?B = "msdiv (mdot (mdot H (outer_self dq)) H) (vdot (vmdot dq H) dq)"
  have sqOg: "square_mat (length dq) (outer_self dg)"
    using square_outer_self [of dg] assms(1) by simp
  have sqOq: "square_mat (length dq) (outer_self dq)" by (rule square_outer_self)
  have sqD: "square_mat (length dq) (msub ?A ?B)"
    by (intro square_msub square_msdiv square_mdot sqOg sqOq assms(2))
  then have "length (msub ?A ?B) = length dq" by (rule square_matD)
  then have "msub ?A ?B \<noteq> []" using assms(3) by auto
  then show "update_hessian H dq dg = Inr (madd H (msub ?A ?B))"
    using assms(1,2) by (simp add: update_hessian_def Let_def)
  show "square_mat (length dq) (madd H (msub ?A ?B))"
    by (intro square_madd assms(2) sqD)
qed

lemma update_hessian_empty: "update_hessian [] [] [] = Inl ValueError"
  by (simp add: update_hessian_def square_mat_def la_defs)

lemma nonfinite_fsign_inf: "\<not> is_finite (fsign_inf b)"
  by (cases b) simp_all

lemma nonfinite_div0: "\<not> is_finite (x / Fin 0)"
  by (cases x) (simp_all add: npfloat_ops nonfinite_fsign_inf)

lemma nonfinite_sub: "\<not> is_finite a \<or> \<not> is_finite b \<Longrightarrow> \<not> is_finite (a - b)"
  by (cases a; cases b) (simp_all add: npfloat_ops)

lemma nonfinite_add: "\<not> is_finite b \<Longrightarrow> \<not> is_finite (a + b)"
  by (cases a; cases b) (simp_all add: npfloat_ops)

lemma no_finite_msdiv0: "no_finite_entry (msdiv A (Fin 0))"
  by (simp add: no_finite_entry_def msdiv_def list_all_iff nonfinite_div0)

lemma no_finite_msub:
  "no_finite_entry A \<or> no_finite_entry B \<Longrightarrow> no_finite_entry (msub A B)"
  unfolding no_finite_entry_def msub_def vsub_def list_all_iff
  by (auto dest!: set_zip_leftD set_zip_rightD intro!: nonfinite_sub elim!: in_set_zipE)

lemma no_finite_madd: "no_finite_entry B \<Longrightarrow> no_finite_entry (madd A B)"
  unfolding no_finite_entry_def madd_def vadd_def list_all_iff
  by (auto dest!: set_zip_rightD intro!: nonfinite_add elim!: in_set_zipE)

text \<open>
  C2. The claim: \<open>update_hessian\<close> fails with a DegenerateUpdate error whenever
  \<open>dq\<cdot>dg = 0\<close> or \<open>dq\<cdot>H\<cdot>dq = 0\<close>, instead of producing NaN or infinity. The source has no
  such check. With the unit matrix, \<open>dq = (1, 0)\<close> and \<open>dg = (0, 1)\<close> the first
  denominator is zero, and the call returns a Hessian of NaN and infinity.
\<close>

theorem update_hessian_zero_denominator:
  "vdot [Fin 1, Fin 0] [Fin 0, Fin 1] = Fin 0 \<and>
   update_hessian [[Fin 1, Fin 0], [Fin 0, Fin 1]] [Fin 1, Fin 0] [Fin 0, Fin 1]
     = Inr [[NaN, NaN], [NaN, PInf]]"
  by (simp add: update_hessian_def square_mat_def la_defs npfloat_ops)

text \<open>
  C2, amended. \<open>update_hessian\<close> checks neither denominator and has no failure for a
  zero denominator: for \<open>dq\<close> and \<open>dg\<close> of one length \<open>n \<ge> 1\<close> and an \<open>n \<times> n\<close> matrix \<open>H\<close>
  with \<open>dq\<cdot>dg = 0\<close> or \<open>dq\<cdot>H\<cdot>dq = 0\<close> it returns an \<open>n \<times> n\<close> matrix, and every entry of
  that matrix is NaN or infinite.
\<close>

theorem update_hessian_degenerate:
  assumes "length dg = length dq" and "square_mat (length dq) H" and "dq \<noteq> []"
    and "vdot dq dg = Fin 0 \<or> vdot (vmdot dq H) dq = Fin 0"
  shows "\<exists>M. update_hessian H dq dg = Inr M \<and> square_mat (length dq) M \<and>
             no_finite_entry M"
proof -
  let ?A = "msdiv (outer_self dg) (vdot dq dg)"
  let ?B = "msdiv (mdot (mdot H (outer_self dq)) H) (vdot (vmdot dq H) dq)"
  have "no_finite_entry ?A \<or> no_finite_entry ?B"
    using assms(4) no_finite_msdiv0 by auto
  then have "no_finite_entry (madd H (msub ?A ?B))"
    by (intro no_finite_madd no_finite_msub)
  then show ?thesis
    using update_hessian_returns [OF assms(1,2,3)] by blast
qed

theorem update_hessian_degenerate_witness:
  "length [Fin 0, Fin 1] = length [Fin 1, Fin 0] \<and>
   square_mat (length [Fin 1, Fin 0]) [[Fin 1, Fin 0], [Fin 0, Fin 1]] \<and>
   [Fin 1, Fin 0] \<noteq> [] \<and>
   vdot [Fin 1, Fin 0] [Fin 0, Fin 1] = Fin 0 \<and>
   (\<exists>M. update_hessian [[Fin 1, Fin 0], [Fin 0, Fin 1]] [Fin 1, Fin 0] [Fin 0, Fin 1] = Inr M \<and>
        square_mat (length [Fin 1, Fin 0]) M \<and> no_finite_entry M)"
proof -
  have h1: "length [Fin 0, Fin 1] = length [Fin 1, Fin 0]" by simp
  have h2: "square_mat (length [Fin 1, Fin 0]) [[Fin 1, Fin 0], [Fin 0, Fin 1]]"
    by (simp add: square_mat_def)
  have h3: "[Fin 1, Fin 0] \<noteq> []" by simp
  have h4: "vdot [Fin 1, Fin 0] [Fin 0, Fin 1] = Fin 0"
    by (simp add: vdot_def npfloat_ops)
  from h4 have h4': "vdot [Fin 1, Fin 0] [Fin 0, Fin 1] = Fin 0 \<or>
      vdot (vmdot [Fin 1, Fin 0] [[Fin 1, Fin 0], [Fin 0, Fin 1]]) [Fin 1, Fin 0] = Fin 0" ..
  show ?thesis
    using h1 h2 h3 h4 update_hessian_degenerate [OF h1 h2 h3 h4'] by blast
qed

text \<open>
  Read over the reals, that is in exact arithmetic, the update of a symmetric matrix is
  symmetric: the rank-two formula is symmetric term by term. This is a fact of the
  formula. The float computation rounds the entries \<open>(i, j)\<close> and \<open>(j, i)\<close> of
  \<^verbatim>\<open>H.dot(...).dot(H)\<close> along different sums, and the number model above has no rounding,
  so nothing is said here about the symmetry of the matrix the floats produce.
\<close>

lemma foldl_plus_sum_list: "foldl (+) a xs = a + sum_list (xs :: real list)"
  by (induction xs arbitrary: a) (simp_all add: algebra_simps)

lemma vdot_sum:
  fixes xs ys :: "real list"
  assumes "length xs = n" "length ys = n"
  shows "vdot xs ys = (\<Sum>k<n. xs ! k * ys ! k)"
proof -
  have "sum_list (map2 (*) xs ys) = (\<Sum>k = 0..<n. map2 (*) xs ys ! k)"
    using assms by (simp add: sum_list_sum_nth)
  also have "\<dots> = (\<Sum>k = 0..<n. xs ! k * ys ! k)"
    using assms by (intro sum.cong) simp_all
  finally show ?thesis
    by (simp add: vdot_def foldl_plus_sum_list atLeast0LessThan)
qed

lemma symmetric_iff:
  assumes "square_mat n A"
  shows "symmetric A \<longleftrightarrow> (\<forall>i<n. \<forall>j<n. A ! i ! j = A ! j ! i)"
proof
  assume "symmetric A"
  then have eq: "A = map (\<lambda>i. map (\<lambda>j. A ! j ! i) [0..<n]) [0..<n]"
    using transpose_square [OF assms] by (simp add: symmetric_def)
  show "\<forall>i<n. \<forall>j<n. A ! i ! j = A ! j ! i"
  proof (intro allI impI)
    fix i j assume "i < n" "j < n"
    then have "map (\<lambda>i. map (\<lambda>j. A ! j ! i) [0..<n]) [0..<n] ! i ! j = A ! j ! i" by simp
    with eq show "A ! i ! j = A ! j ! i" by simp
  qed
next
  assume sym: "\<forall>i<n. \<forall>j<n. A ! i ! j = A ! j ! i"
  have "map (\<lambda>i. map (\<lambda>j. A ! j ! i) [0..<n]) [0..<n] = A"
    using assms sym by (intro nth_equalityI) (auto simp: square_matD)
  then show "symmetric A"
    using transpose_square [OF assms] by (simp add: symmetric_def)
qed

lemma outer_self_nth:
  "i < length v \<Longrightarrow> j < length v \<Longrightarrow> outer_self v ! i ! j = v ! j * v ! i"
  by (simp add: outer_self_def)

lemma mdot_nth:
  fixes A B :: "real list list"
  assumes "square_mat n A" "square_mat n B" "i < n" "j < n"
  shows "mdot A B ! i ! j = (\<Sum>k<n. A ! i ! k * B ! k ! j)"
proof -
  have "mdot A B ! i ! j = vdot (A ! i) (map (\<lambda>k. B ! k ! j) [0..<n])"
    using assms by (simp add: mdot_def transpose_square square_matD)
  also have "\<dots> = (\<Sum>k<n. A ! i ! k * map (\<lambda>k. B ! k ! j) [0..<n] ! k)"
    using assms by (intro vdot_sum) (simp_all add: square_matD)
  also have "\<dots> = (\<Sum>k<n. A ! i ! k * B ! k ! j)"
    by (intro sum.cong) simp_all
  finally show ?thesis .
qed

lemma msdiv_nth:
  "square_mat n A \<Longrightarrow> i < n \<Longrightarrow> j < n \<Longrightarrow> msdiv A c ! i ! j = A ! i ! j / c"
  by (simp add: msdiv_def square_matD)

lemma msub_nth:
  "square_mat n A \<Longrightarrow> square_mat n B \<Longrightarrow> i < n \<Longrightarrow> j < n \<Longrightarrow>
   msub A B ! i ! j = A ! i ! j - B ! i ! j"
  by (simp add: msub_def vsub_def square_matD)

lemma madd_nth:
  "square_mat n A \<Longrightarrow> square_mat n B \<Longrightarrow> i < n \<Longrightarrow> j < n \<Longrightarrow>
   madd A B ! i ! j = A ! i ! j + B ! i ! j"
  by (simp add: madd_def vadd_def square_matD)

lemma sandwich_symmetric:
  fixes H :: "real list list"
  assumes sq: "square_mat n H" and sym: "\<forall>i<n. \<forall>j<n. H ! i ! j = H ! j ! i"
    and len: "length v = n" and ij: "i < n" "j < n"
  shows "mdot (mdot H (outer_self v)) H ! i ! j = mdot (mdot H (outer_self v)) H ! j ! i"
proof -
  have sqO: "square_mat n (outer_self v)" using square_outer_self [of v] len by simp
  have sqHO: "square_mat n (mdot H (outer_self v))" by (rule square_mdot [OF sq sqO])
  have entry: "mdot (mdot H (outer_self v)) H ! a ! b
      = (\<Sum>l<n. \<Sum>k<n. H ! a ! k * (v ! l * v ! k) * H ! l ! b)"
    if "a < n" "b < n" for a b
  proof -
    have "mdot (mdot H (outer_self v)) H ! a ! b
        = (\<Sum>l<n. mdot H (outer_self v) ! a ! l * H ! l ! b)"
      by (rule mdot_nth [OF sqHO sq that])
    also have "\<dots> = (\<Sum>l<n. (\<Sum>k<n. H ! a ! k * (v ! l * v ! k)) * H ! l ! b)"
      using that len by (intro sum.cong refl) (simp add: mdot_nth [OF sq sqO] outer_self_nth)
    finally show ?thesis by (simp add: sum_distrib_right)
  qed
  have "(\<Sum>l<n. \<Sum>k<n. H ! i ! k * (v ! l * v ! k) * H ! l ! j)
      = (\<Sum>l<n. \<Sum>k<n. H ! j ! l * (v ! k * v ! l) * H ! k ! i)"
    using sym ij by (intro sum.cong refl) (simp add: mult_ac)
  also have "\<dots> = (\<Sum>k<n. \<Sum>l<n. H ! j ! l * (v ! k * v ! l) * H ! k ! i)"
    by (rule sum.swap)
  finally show ?thesis using ij by (simp add: entry)
qed

lemma update_hessian_symmetric_real:
  fixes H :: "real list list"
  assumes sq: "square_mat n H" and sym: "symmetric H"
    and len: "length dq = n" "length dg = n" and pos: "0 < n"
  shows "\<exists>M. update_hessian H dq dg = Inr M \<and> square_mat n M \<and> symmetric M"
proof -
  let ?A = "msdiv (outer_self dg) (vdot dq dg)"
  let ?S = "mdot (mdot H (outer_self dq)) H"
  let ?B = "msdiv ?S (vdot (vmdot dq H) dq)"
  let ?M = "madd H (msub ?A ?B)"
  have symH: "\<forall>i<n. \<forall>j<n. H ! i ! j = H ! j ! i"
    using sym symmetric_iff [OF sq] by simp
  have sqOg: "square_mat n (outer_self dg)" using square_outer_self [of dg] len by simp
  have sqOq: "square_mat n (outer_self dq)" using square_outer_self [of dq] len by simp
  have sqS: "square_mat n ?S" by (intro square_mdot sq sqOq)
  have sqA: "square_mat n ?A" by (intro square_msdiv sqOg)
  have sqB: "square_mat n ?B" by (intro square_msdiv sqS)
  have sqD: "square_mat n (msub ?A ?B)" by (intro square_msub sqA sqB)
  have sqM: "square_mat n ?M" by (intro square_madd sq sqD)
  have "?M ! i ! j = ?M ! j ! i" if "i < n" "j < n" for i j
  proof -
    have "?S ! i ! j = ?S ! j ! i"
      by (rule sandwich_symmetric [OF sq symH len(1) that])
    then show ?thesis
      using that symH len
      by (simp add: madd_nth [OF sq sqD] msub_nth [OF sqA sqB] msdiv_nth [OF sqOg]
          msdiv_nth [OF sqS] outer_self_nth mult.commute)
  qed
  then have "symmetric ?M" using symmetric_iff [OF sqM] by simp
  moreover have "update_hessian H dq dg = Inr ?M"
  proof -
    have "dq \<noteq> []" using len(1) pos by auto
    then show ?thesis
      using update_hessian_returns(1) [of dg dq H] sq len by simp
  qed
  ultimately show ?thesis using sqM by blast
qed

subsection \<open>Convergence test\<close>

text \<open>
  Off the sphere the four criteria are three-item tuples and the loop returns the
  conjunction of the four strict comparisons.
\<close>

lemma converged_off_sphere:
  "np_max (map abs forces) = Inr fm \<Longrightarrow> np_max (map abs step) = Inr sm \<Longrightarrow>
   converged K forces step False p =
     Inr (rms K forces < gradientrms p \<and> fm < gradientmax p \<and>
          rms K step < steprms p \<and> sm < stepmax p)"
  by (simp add: converged_def)

text \<open>
  C3. The claim: \<open>converged\<close> returns true exactly when every criterion holds, and with
  \<open>on_sphere\<close> true it returns false for every gradient and step. With \<open>on_sphere\<close> true
  the source does not return: the loop reads item 2 of the two-item tuple
  \<^verbatim>\<open>('Minimization on sphere', False)\<close> and raises \<^verbatim>\<open>IndexError\<close>. Here at a gradient and
  a step of one zero entry each, with the default thresholds.
\<close>

theorem converged_on_sphere_raises:
  "converged K [Fin 0] [Fin 0] True defaults = Inl IndexError"
  by (simp add: converged_def)

subsection \<open>Trust radius\<close>

lemma flt_gt_quarter: "Fin 0.75 < r \<Longrightarrow> \<not> r < Fin 0.25"
  by (cases r) (simp_all add: less_npfloat_def)

text \<open>
  C5. With \<open>r\<close> the ratio \<open>dE / dE_predicted\<close>, or 1 when \<open>dE = 0\<close>, \<open>update_trust\<close> returns
  the norm of \<open>dq\<close> over 4 when \<open>r < 0.25\<close>, twice the trust radius when \<open>r > 0.75\<close> and the
  norm of \<open>dq\<close> is within \<open>1e-10\<close> of the radius, and the radius unchanged in every other
  case.
\<close>

theorem update_trust_policy:
  "(let r = (if dE = Fin 0 then Fin 1 else dE / dEp); n = norm_vec dq;
        t' = update_trust tr dE dEp dq in
    (r < Fin 0.25 \<longrightarrow> t' = n / Fin 4) \<and>
    (r > Fin 0.75 \<and> \<bar>n - tr\<bar> < Fin (1 / 10 ^ 10) \<longrightarrow> t' = Fin 2 * tr) \<and>
    (\<not> r < Fin 0.25 \<and> \<not> (r > Fin 0.75 \<and> \<bar>n - tr\<bar> < Fin (1 / 10 ^ 10)) \<longrightarrow> t' = tr))"
  using flt_gt_quarter by (auto simp: update_trust_def Let_def)

theorem update_trust_policy_witness:
  "update_trust (Fin 0.3) (Fin 1) (Fin (- 1)) [Fin 0.4] = Fin 0.1 \<and>
   update_trust (Fin 0.3) (Fin (- 1)) (Fin (- 1)) [Fin 0.3] = Fin 0.6 \<and>
   update_trust (Fin 0.3) (Fin (- 1)) (Fin (- 2)) [Fin 0.3] = Fin 0.3"
  using update_trust_policy [of "Fin 1" "Fin (- 1)" "[Fin 0.4]" "Fin 0.3"]
        update_trust_policy [of "Fin (- 1)" "Fin (- 1)" "[Fin 0.3]" "Fin 0.3"]
        update_trust_policy [of "Fin (- 1)" "Fin (- 2)" "[Fin 0.3]" "Fin 0.3"]
  by (simp add: Let_def norm_vec_single npfloat_ops)

text \<open>
  C6. The claim: a strictly positive trust radius gives a strictly positive result for
  every \<open>dE\<close>, \<open>dE_predicted\<close> and \<open>dq\<close>, a zero \<open>dq\<close> included. It fails at a zero step with
  ratio \<open>-1\<close>: the result is the norm of \<open>dq\<close> over 4, which is 0.
\<close>

theorem update_trust_zero_step:
  "Fin 0 < Fin 0.3 \<and> \<not> Fin 0 < update_trust (Fin 0.3) (Fin 1) (Fin (- 1)) [Fin 0, Fin 0]"
  by (simp add: update_trust_def norm_vec_def vdot_def npfloat_ops)

text \<open>
  C6, amended. A strictly positive trust radius and a \<open>dq\<close> of strictly positive norm
  give a strictly positive result, for every \<open>dE\<close> and \<open>dE_predicted\<close>.
\<close>

theorem update_trust_positive:
  assumes "Fin 0 < tr" and "Fin 0 < norm_vec dq"
  shows "Fin 0 < update_trust tr dE dEp dq"
proof -
  have a: "Fin 0 < norm_vec dq / Fin 4"
    using assms(2) by (cases "norm_vec dq") (simp_all add: npfloat_ops)
  have b: "Fin 0 < Fin 2 * tr"
    using assms(1) by (cases tr) (simp_all add: npfloat_ops)
  show ?thesis
    using a b assms(1) by (simp add: update_trust_def Let_def)
qed

theorem update_trust_positive_witness:
  "Fin 0 < Fin 0.3 \<and> Fin 0 < norm_vec [Fin 0.4] \<and>
   Fin 0 < update_trust (Fin 0.3) (Fin 1) (Fin (- 1)) [Fin 0.4]"
proof -
  have h1: "Fin 0 < Fin 0.3" by (simp add: npfloat_ops)
  have h2: "Fin 0 < norm_vec [Fin 0.4]" by (simp add: norm_vec_single npfloat_ops)
  show ?thesis
    using h1 h2 update_trust_positive [OF h1 h2, of "Fin 1" "Fin (- 1)"] by simp
qed

subsection \<open>Line search\<close>

lemma interval_not_nan:
  "t \<noteq> NaN \<Longrightarrow> (t < Fin a \<or> t > Fin b) = (\<not> in_interval (Fin a) (Fin b) t)"
  by (cases t) (auto simp: in_interval_def npfloat_ops)

lemma le_or_gt_not_nan: "E0 \<noteq> NaN \<Longrightarrow> E1 \<noteq> NaN \<Longrightarrow> \<not> E0 \<le> E1 \<Longrightarrow> E0 > E1"
  by (cases E0; cases E1) (auto simp: npfloat_ops)

lemma interval_or_nan:
  "(t < Fin a \<or> t > Fin b) = (\<not> (in_interval (Fin a) (Fin b) t \<or> t = NaN))"
  by (cases t) (auto simp: in_interval_def npfloat_ops)

lemma not_le_cases: "\<not> E0 \<le> E1 \<Longrightarrow> E0 > E1 \<or> E0 = NaN \<or> E1 = NaN"
  by (cases E0; cases E1) (auto simp: npfloat_ops)

text \<open>
  C7. The claim: \<open>linear_search\<close> returns the quartic extremum exactly when the quartic
  fit succeeds with \<open>t\<close> in \<open>[-1, 2]\<close>, otherwise the cubic extremum exactly when the cubic
  fit succeeds with \<open>t\<close> in \<open>[0, 1]\<close>, otherwise the endpoint of lower energy. The source
  rejects a fit by \<^verbatim>\<open>t < -1 or t > 2\<close>, and both comparisons are false for NaN: a quartic
  fit whose \<open>t\<close> is NaN is returned, although NaN is in no interval, where the claim's
  words give the fallback \<open>(0, E0)\<close>.
\<close>

theorem linear_search_nan_fit:
  "fit_quartic kernel_nan (Fin 0) (Fin 1) (Fin 0) (Fin 0) = Some (NaN, Fin (1 / 4)) \<and>
   \<not> in_interval (Fin (- 1)) (Fin 2) NaN \<and>
   linear_search kernel_nan (Fin 0) (Fin 1) (Fin 0) (Fin 0) = (NaN, Fin (1 / 4)) \<and>
   interpolate_spec kernel_nan (Fin 0) (Fin 1) (Fin 0) (Fin 0) = (Fin 0, Fin 0)"
  by (simp add: linear_search_def interpolate_spec_def fit_accepted_def in_interval_def
      kernel_nan_def fits_kernel1 npfloat_ops)

text \<open>
  C7, amended. \<open>linear_search\<close> returns the quartic extremum \<open>(t, E)\<close> exactly when the
  quartic fit succeeds and its \<open>t\<close> lies in \<open>[-1, 2]\<close> or is NaN; otherwise the cubic
  extremum exactly when the cubic fit succeeds and its \<open>t\<close> lies in \<open>[0, 1]\<close> or is NaN;
  otherwise \<open>(0, E0)\<close> when \<open>E0 \<le> E1\<close>, and \<open>(1, E1)\<close> when \<open>E0 > E1\<close> or an energy is NaN.
\<close>

theorem linear_search_amended:
  "linear_search K E0 E1 g0 g1 = interpolate_amended K E0 E1 g0 g1"
proof -
  let ?no_fit = "if E0 \<le> E1 then (Fin 0, E0) else (Fin 1, E1)"
  let ?cubic = "case fit_cubic K E0 E1 g0 g1 of None \<Rightarrow> ?no_fit
                | Some (t, E) \<Rightarrow> if t < Fin 0 \<or> t > Fin 1 then ?no_fit else (t, E)"
  let ?cubic_spec = "if fit_taken (fit_cubic K E0 E1 g0 g1) (Fin 0) (Fin 1)
                       then the (fit_cubic K E0 E1 g0 g1)
                     else if E0 \<le> E1 then (Fin 0, E0)
                     else if E0 > E1 \<or> E0 = NaN \<or> E1 = NaN then (Fin 1, E1) else undefined"
  have no_fit: "?no_fit = (if E0 \<le> E1 then (Fin 0, E0)
                           else if E0 > E1 \<or> E0 = NaN \<or> E1 = NaN then (Fin 1, E1)
                           else undefined)"
    using not_le_cases [of E0 E1] by auto
  have cubic: "?cubic = ?cubic_spec"
  proof (cases "fit_cubic K E0 E1 g0 g1")
    case None
    then show ?thesis using no_fit by (simp add: fit_taken_def)
  next
    case (Some c)
    obtain t E where c: "c = (t, E)" by (cases c)
    show ?thesis
      using no_fit Some c interval_or_nan [of t 0 1] by (simp add: fit_taken_def)
  qed
  have ls: "linear_search K E0 E1 g0 g1 =
      (case fit_quartic K E0 E1 g0 g1 of None \<Rightarrow> ?cubic
       | Some (t, E) \<Rightarrow> if t < Fin (- 1) \<or> t > Fin 2 then ?cubic else (t, E))"
    by (simp add: linear_search_def Let_def)
  show ?thesis
  proof (cases "fit_quartic K E0 E1 g0 g1")
    case None
    then show ?thesis
      unfolding ls cubic by (simp add: interpolate_amended_def fit_taken_def)
  next
    case (Some c)
    obtain t E where c: "c = (t, E)" by (cases c)
    show ?thesis
      unfolding ls cubic using Some c interval_or_nan [of t "- 1" 2]
      by (simp add: interpolate_amended_def fit_taken_def)
  qed
qed

theorem linear_search_amended_witness:
  "linear_search kernel_fits (Fin (1 / 5)) (Fin (2 / 3)) (Fin 0) (Fin (3 / 5))
     = (Fin (1 / 2), Fin (1 / 10)) \<and>
   linear_search kernel_nan (Fin 0) (Fin 1) (Fin 0) (Fin 0) = (NaN, Fin (1 / 4)) \<and>
   linear_search kernel1 NaN (Fin 1) (Fin 0) (Fin 0) = (Fin 1, Fin 1)"
  using linear_search_amended [of kernel_fits "Fin (1 / 5)" "Fin (2 / 3)" "Fin 0" "Fin (3 / 5)"]
        linear_search_amended [of kernel_nan "Fin 0" "Fin 1" "Fin 0" "Fin 0"]
        linear_search_amended [of kernel1 NaN "Fin 1" "Fin 0" "Fin 0"]
  by (simp add: interpolate_amended_def fit_taken_def in_interval_def kernel_fits_def
      kernel_nan_def fits_kernel1 npfloat_ops)

text \<open>
  Where no NaN occurs the amended words and the claim's own words agree: on energies
  that are not NaN and fits that return no NaN for \<open>t\<close>, \<open>linear_search\<close> is the cascade
  as the claim states it.
\<close>

lemma linear_search_spec_without_nan:
  assumes "E0 \<noteq> NaN" and "E1 \<noteq> NaN"
    and "fit_not_nan (fit_quartic K E0 E1 g0 g1)"
    and "fit_not_nan (fit_cubic K E0 E1 g0 g1)"
  shows "linear_search K E0 E1 g0 g1 = interpolate_spec K E0 E1 g0 g1"
proof -
  let ?no_fit = "if E0 \<le> E1 then (Fin 0, E0) else (Fin 1, E1)"
  let ?cubic = "case fit_cubic K E0 E1 g0 g1 of None \<Rightarrow> ?no_fit
                | Some (t, E) \<Rightarrow> if t < Fin 0 \<or> t > Fin 1 then ?no_fit else (t, E)"
  let ?cubic_spec = "if fit_accepted (fit_cubic K E0 E1 g0 g1) (Fin 0) (Fin 1)
                       then the (fit_cubic K E0 E1 g0 g1)
                     else if E0 \<le> E1 then (Fin 0, E0)
                     else if E0 > E1 then (Fin 1, E1) else undefined"
  have no_fit: "?no_fit = (if E0 \<le> E1 then (Fin 0, E0)
                           else if E0 > E1 then (Fin 1, E1) else undefined)"
    using le_or_gt_not_nan [OF assms(1,2)] by simp
  have cubic: "?cubic = ?cubic_spec"
  proof (cases "fit_cubic K E0 E1 g0 g1")
    case None
    then show ?thesis using no_fit by (simp add: fit_accepted_def)
  next
    case (Some c)
    obtain t E where c: "c = (t, E)" by (cases c)
    have "t \<noteq> NaN" using assms(4) Some c by (simp add: fit_not_nan_def)
    from interval_not_nan [OF this] show ?thesis
      using no_fit Some c by (simp add: fit_accepted_def)
  qed
  have ls: "linear_search K E0 E1 g0 g1 =
      (case fit_quartic K E0 E1 g0 g1 of None \<Rightarrow> ?cubic
       | Some (t, E) \<Rightarrow> if t < Fin (- 1) \<or> t > Fin 2 then ?cubic else (t, E))"
    by (simp add: linear_search_def Let_def)
  show ?thesis
  proof (cases "fit_quartic K E0 E1 g0 g1")
    case None
    then show ?thesis
      unfolding ls cubic by (simp add: interpolate_spec_def fit_accepted_def)
  next
    case (Some c)
    obtain t E where c: "c = (t, E)" by (cases c)
    have "t \<noteq> NaN" using assms(3) Some c by (simp add: fit_not_nan_def)
    from interval_not_nan [OF this] show ?thesis
      unfolding ls cubic using Some c by (simp add: interpolate_spec_def fit_accepted_def)
  qed
qed

subsection \<open>The optimiser\<close>

lemma berny_step_exhausted:
  "nsteps st + 1 > maxsteps p \<Longrightarrow>
   berny_step C K p st energy gradients = Inr (Exhausted, st\<lparr>nsteps := nsteps st + 1\<rparr>)"
  by (simp add: berny_step_def Let_def)

lemma berny_step_nsteps:
  assumes "berny_step C K p st energy gradients = Inr (out, st')"
  shows "nsteps st' = nsteps st + 1"
  using assms unfolding berny_step_def
  by (auto simp: Let_def bind_err_Inr_iff split: if_splits prod.splits)

lemma berny_step_outcome:
  assumes "berny_step C K p st energy gradients = Inr (out, st')"
  shows "(out = Exhausted \<longleftrightarrow> nsteps st + 1 > maxsteps p) \<and>
         (out = Converged \<longrightarrow> (\<exists>step os. converged K gradients step os p = Inr True))"
  using assms unfolding berny_step_def
  by (auto simp: Let_def bind_err_Inr_iff split: if_splits prod.splits)

text \<open>The two passes of the one-dimensional run.\<close>

lemma first_pass_1d:
  "berny_step coords1 kernel1 params1 (berny_init coords1 params1 (\<lambda>name. None) (Fin (2 / 3)))
     (Fin (2 / 3)) [Fin 2] = Inr (Continue (Fin (11 / 30)), state1)"
  by (simp add: berny_step_def berny_init_def coords1_def params1_def defaults_def Let_def
      ginv_kernel1_unit la_defs quadratic_step_1d_sphere need_def write_debug_def
      converged_def rms_kernel1_single state1_def point1_def npfloat_ops)

lemma second_pass_1d:
  "berny_step coords1 kernel1 defaults state1 (Fin (1 / 5)) [Fin 0] = Inr (Converged, state2)"
  by (simp add: berny_step_def coords1_def defaults_def Let_def ginv_kernel1_unit
      update_hessian_def square_mat_def la_defs quadratic_step_1d_rfo need_def need_point_def
      write_debug_def converged_def rms_kernel1_single state1_def point1_def npfloat_ops
      update_trust_def norm_vec_single linear_search_def state2_def point2_def fits_kernel1
      lower_energy_def)

lemma never_converged_1d: "converged kernel1 [Fin 2] step os params1 \<noteq> Inr True"
  by (cases "np_max (map abs step)"; cases os)
     (simp_all add: converged_def Let_def rms_kernel1_single params1_def defaults_def
        npfloat_ops)

text \<open>
  C4. The claim: with \<open>maxsteps = 1\<close>, on a surface that never meets the thresholds, the
  engine returns \<open>Exhausted\<close> after exactly one call. The counter is compared with
  \<open>nsteps > maxsteps\<close>, and after the first increment it is 1, which does not exceed 1:
  the first call of the one-dimensional run makes a full pass and hands out the next
  geometry.
\<close>

theorem first_call_continues:
  "maxsteps params1 = 1 \<and>
   berny_step coords1 kernel1 params1 (berny_init coords1 params1 (\<lambda>name. None) (Fin (2 / 3)))
     (Fin (2 / 3)) [Fin 2] = Inr (Continue (Fin (11 / 30)), state1)"
  by (simp add: first_pass_1d) (simp add: params1_def)

text \<open>
  C4, amended. With \<open>maxsteps = 1\<close> and gradients that never meet the thresholds, a first
  call that returns continues with a new geometry and leaves the counter at 1; the
  second call returns \<open>Exhausted\<close>, whatever it is sent, with nothing changed but the
  counter. So the engine returns \<open>Exhausted\<close> on the second call and never \<open>Converged\<close>:
  the counter is incremented at the start of each call, and the call ends with
  \<open>Exhausted\<close> as soon as the counter exceeds the budget.
\<close>

theorem berny_maxsteps_one:
  assumes "maxsteps p = 1"
    and "berny_step C K p (berny_init C p fs geom0) e1 g1 = Inr (out1, s1)"
    and "\<forall>step os. converged K g1 step os p \<noteq> Inr True"
  shows "(\<exists>geom1. out1 = Continue geom1) \<and> nsteps s1 = 1 \<and>
         berny_step C K p s1 e2 g2 = Inr (Exhausted, s1\<lparr>nsteps := 2\<rparr>)"
proof -
  have n0: "nsteps (berny_init C p fs geom0) = 0" by (simp add: berny_init_def)
  have n1: "nsteps s1 = 1" using berny_step_nsteps [OF assms(2)] n0 by simp
  have "out1 \<noteq> Exhausted" "out1 \<noteq> Converged"
    using berny_step_outcome [OF assms(2)] assms(1,3) n0 by auto
  then have "\<exists>geom1. out1 = Continue geom1" by (cases out1) simp_all
  moreover have "berny_step C K p s1 e2 g2 = Inr (Exhausted, s1\<lparr>nsteps := 2\<rparr>)"
    using berny_step_exhausted [of p s1 C K e2 g2] assms(1) n1 by simp
  ultimately show ?thesis using n1 by simp
qed

theorem berny_maxsteps_one_witness:
  "maxsteps params1 = 1 \<and>
   berny_step coords1 kernel1 params1 (berny_init coords1 params1 (\<lambda>name. None) (Fin (2 / 3)))
     (Fin (2 / 3)) [Fin 2] = Inr (Continue (Fin (11 / 30)), state1) \<and>
   (\<forall>step os. converged kernel1 [Fin 2] step os params1 \<noteq> Inr True) \<and>
   nsteps state1 = 1 \<and>
   berny_step coords1 kernel1 params1 state1 (Fin (1 / 5)) [Fin 0]
     = Inr (Exhausted, state1\<lparr>nsteps := 2\<rparr>)"
proof -
  have h1: "maxsteps params1 = 1" by (simp add: params1_def)
  have h3: "\<forall>step os. converged kernel1 [Fin 2] step os params1 \<noteq> Inr True"
    using never_converged_1d by blast
  show ?thesis
    using h1 h3 first_pass_1d
      berny_maxsteps_one [OF h1 first_pass_1d h3, of "Fin (1 / 5)" "[Fin 0]"]
    by simp
qed

text \<open>
  C10. A pass that is not cut short by the step budget leaves in \<open>interpolated\<close>: on a
  pass after the first, the point with \<open>q = current.q + t\<cdot>dq\<close>, \<open>E = E\<close> and
  \<open>g = t\<cdot>best.g + (1 - t)\<cdot>current.g\<close>, where \<open>dq = best.q - current.q\<close> and \<open>(t, E)\<close> is
  what \<open>linear_search\<close> returns for the energies \<open>current.E\<close>, \<open>best.E\<close> and the
  derivatives \<open>current.g\<cdot>dq\<close>, \<open>best.g\<cdot>dq\<close>; on the first pass, the current point.
\<close>

theorem interpolated_point:
  assumes "berny_step C K p st energy gradients = Inr (out, st')" and "out \<noteq> Exhausted"
  shows "let cur_q = eval_geom C (geom st);
             cur_g = mvdot (transpose (ginv K (B_matrix C (geom st)))) gradients
         in if nsteps st + 1 > 1 then
              (\<exists>b best_E best_g t E.
                 best st = Some b \<and> pes_E b = Some best_E \<and> pes_g b = Some best_g \<and>
                 linear_search K energy best_E (vdot cur_g (vsub (pes_q b) cur_q))
                   (vdot best_g (vsub (pes_q b) cur_q)) = (t, E) \<and>
                 interpolated st' =
                   Some (PESPoint (vadd cur_q (vscale t (vsub (pes_q b) cur_q))) (Some E)
                          (Some (vadd (vscale t best_g) (vscale (Fin 1 - t) cur_g)))))
            else interpolated st' = Some (PESPoint cur_q (Some energy) (Some cur_g))"
  using assms unfolding berny_step_def
  by (auto simp: Let_def bind_err_Inr_iff need_def need_point_def
      split: if_splits prod.splits option.splits)

theorem interpolated_point_witness:
  "berny_step coords1 kernel1 defaults state1 (Fin (1 / 5)) [Fin 0] = Inr (Converged, state2) \<and>
   Converged \<noteq> (Exhausted :: npfloat outcome) \<and>
   nsteps state1 + 1 > 1 \<and>
   linear_search kernel1 (Fin (1 / 5)) (Fin (2 / 3)) (Fin 0) (Fin (3 / 5)) = (Fin 0, Fin (1 / 5)) \<and>
   interpolated state2 = Some (PESPoint [Fin (11 / 30)] (Some (Fin (1 / 5))) (Some [Fin 0]))"
proof -
  have h2: "Converged \<noteq> (Exhausted :: npfloat outcome)" by simp
  show ?thesis
    using second_pass_1d h2 interpolated_point [OF second_pass_1d h2]
    by (simp add: state1_def state2_def point2_def linear_search_def fits_kernel1 npfloat_ops)
qed

subsection \<open>Debug trace\<close>

lemma sequence_err_Inr: "sequence_err (map (\<lambda>x. Inr (f x)) xs) = Inr (map f xs)"
  by (induction xs) simp_all

text \<open>An array is written as a list of numbers, a matrix as a list of such lists.\<close>

lemma json_dump_array: "json_dump (NdArray1 v) = Inr (JArray (map json_float v))"
  by (simp add: json_dump_def comp_def sequence_err_Inr)

lemma json_dump_matrix:
  "json_dump (NdArray2 m) = Inr (JArray (map (\<lambda>row. JArray (map json_float row)) m))"
  by (simp add: json_dump_def comp_def sequence_err_Inr)

text \<open>
  With a trace file configured, a pass appends its record to the list and writes the
  whole list to the file, replacing what the file held.
\<close>

lemma write_debug_rewrites:
  "debug p = Some path \<Longrightarrow> path \<noteq> [] \<Longrightarrow> json_dump (PyList (dbg @ [entry])) = Inr j \<Longrightarrow>
   write_debug p dbg fs entry = Inr (dbg @ [entry], fs(path := Some j))"
  by (simp add: write_debug_def Let_def)

text \<open>
  C9. The claim: in the trace every NaN is written as null, every array or matrix as a
  nested sequence of numbers, and the file is rewritten in full after every pass. The
  encoder writes floats by itself and never hands one to \<^verbatim>\<open>ArrayEncoder.default\<close>, so
  the branch that maps NaN to \<^verbatim>\<open>None\<close> is not reached: a NaN, as a value of its own or
  inside an array, is written as the token \<^verbatim>\<open>NaN\<close>. Here a record list with a NaN trust
  radius, a Hessian and a vector holding NaN.
\<close>

theorem trace_writes_nan:
  "json_dump (PyList [PyDict [(''nstep'', PyInt 2), (''trust'', PyFloat NaN),
                              (''hessian'', NdArray2 [[NaN, PInf]]),
                              (''energy'', PyFloat (Fin 1)), (''q'', NdArray1 [NaN])]])
     = Inr (JArray [JObject [(''nstep'', JInt 2), (''trust'', JNaN),
                             (''hessian'', JArray [JArray [JNaN, JInfinity]]),
                             (''energy'', JNum 1), (''q'', JArray [JNaN])]])"
  by (simp add: json_dump_def)

end
